theory Spec2Isabelle
  imports Main
begin

section \<open>Python values and exceptions\<close>

text \<open>
  The handler of \<^verbatim>\<open>bucket-policy.py\<close> is straight-line Python over strings, parsed JSON
  and the responses of three AWS clients. Every exception the source can raise is a value
  of \<open>error\<close>; a function that can raise returns \<open>error + 'a\<close> with \<open>Inl\<close> for the
  exception. \<open>ExternalError\<close> stands for whatever a collaborator (boto3, pandas, json)
  raises on its own account.
\<close>

datatype error =
    IndexError
  | ValueError
  | KeyError
  | TypeError
  | AttributeError
  | ExternalError string

subsection \<open>Strings\<close>

text \<open>
  A Python string is the list of the bytes of its UTF-8 encoding: an ASCII character is
  one char below 128, every other character is a run of chars from 128 up. Cutting at an
  ASCII separator, comparing, testing for an ASCII suffix or an ASCII piece and
  concatenating give the same on the encoding as on the characters.
  \<^verbatim>\<open>s.split(sep)\<close> with a one-character separator cuts at every occurrence and never
  returns an empty list (\<^verbatim>\<open>"".split(".") == [""]\<close>).
\<close>

fun split_on :: "char \<Rightarrow> string \<Rightarrow> string list" where
  "split_on sep [] = [[]]"
| "split_on sep (c # cs) =
     (if c = sep then [] # split_on sep cs
      else (case split_on sep cs of
              [] \<Rightarrow> [[c]]
            | w # ws \<Rightarrow> (c # w) # ws))"

text \<open>\<^verbatim>\<open>xs[i]\<close> for a non-negative index: IndexError past the end.\<close>

definition py_index :: "'a list \<Rightarrow> nat \<Rightarrow> error + 'a" where
  "py_index xs i = (if i < length xs then Inr (xs ! i) else Inl IndexError)"

text \<open>
  \<^verbatim>\<open>s.lower()\<close> on the ASCII letters. Python lowers letters beyond ASCII too, none
  of them to an ASCII letter of \<^verbatim>\<open>xlsx\<close>; the handler only compares the result
  with \<^verbatim>\<open>xlsx\<close>, and for that comparison leaving them as they are gives the same.
\<close>

definition lower_char :: "char \<Rightarrow> char" where
  "lower_char c =
     (let n = (of_char c :: nat) in if 65 \<le> n \<and> n \<le> 90 then char_of (n + 32) else c)"

definition lower :: "string \<Rightarrow> string" where
  "lower s = map lower_char s"

text \<open>\<^verbatim>\<open>s.endswith(t)\<close>.\<close>

definition endswith :: "string \<Rightarrow> string \<Rightarrow> bool" where
  "endswith s t = (length t \<le> length s \<and> drop (length s - length t) s = t)"

text \<open>\<^verbatim>\<open>t in s\<close> for two strings: \<open>t\<close> occurs in \<open>s\<close> as a contiguous piece.\<close>

fun str_contains :: "string \<Rightarrow> string \<Rightarrow> bool" where
  "str_contains t [] = (t = [])"
| "str_contains t (c # cs) = (take (length t) (c # cs) = t \<or> str_contains t cs)"

subsection \<open>Decimal digits\<close>

definition is_digit :: "char \<Rightarrow> bool" where
  "is_digit c = (let n = (of_char c :: nat) in 48 \<le> n \<and> n \<le> 57)"

definition digit_val :: "char \<Rightarrow> nat" where
  "digit_val c = of_char c - 48"

definition digit_char :: "nat \<Rightarrow> char" where
  "digit_char n = char_of (48 + n)"


text \<open>\<^verbatim>\<open>str(n)\<close> for a non-negative integer: its decimal digits, no padding.\<close>

fun str_nat :: "nat \<Rightarrow> string" where
  "str_nat n = (if n < 10 then [digit_char n] else str_nat (n div 10) @ [digit_char (n mod 10)])"

declare str_nat.simps [simp del]

text \<open>The format spec \<^verbatim>\<open>{n:02d}\<close>: the decimal digits, zero-padded on the left to width 2.\<close>

definition fmt_02d :: "nat \<Rightarrow> string" where
  "fmt_02d n = (let s = str_nat n in replicate (2 - length s) (CHR ''0'') @ s)"

section \<open>Date token of the file name\<close>

text \<open>
  \<^verbatim>\<open>datetime.strptime(date_str, "%Y%m%d")\<close> (source line 146) is CPython library code.
  It compiles the format to the regular expression
  \<^verbatim>\<open>(?P<Y>\d\d\d\d)(?P<m>1[0-2]|0[1-9]|[1-9])(?P<d>3[0-1]|[1-2]\d|0[1-9]|[1-9]| [1-9])\<close>,
  takes the first match at the start of the string in the regular expression's priority
  order, raises ValueError when there is none or when the match stops before the end of
  the string, converts the three groups with \<^verbatim>\<open>int\<close>, and raises ValueError again
  when the three numbers name no date of the calendar (years 1 to 9999). The alternatives
  below are listed in that priority order.

  The classes in brackets hold ASCII digits only. \<^verbatim>\<open>\d\<close> matches, and \<^verbatim>\<open>int\<close>
  converts, every decimal digit of Unicode, of any script. Which characters these are is a
  table of the Python build, not of this repository, so it is a parameter: a function
  that reads one decimal digit at the start of a string and returns its value and the rest
  of the string, or \<open>None\<close> when the string does not start with a decimal digit.
\<close>

type_synonym decimal = "string \<Rightarrow> (nat \<times> string) option"

text \<open>
  What every such table satisfies: the empty string starts with no digit, and of the
  ASCII characters exactly \<^verbatim>\<open>0\<close> to \<^verbatim>\<open>9\<close> are decimal digits, with their values.
\<close>

definition decimal_digits :: "decimal \<Rightarrow> bool" where
  "decimal_digits nd =
     (nd [] = None \<and>
      (\<forall>c r. (of_char c :: nat) < 128 \<longrightarrow>
         nd (c # r) = (if is_digit c then Some (digit_val c, r) else None)))"

definition in_range :: "char \<Rightarrow> nat \<Rightarrow> nat \<Rightarrow> bool" where
  "in_range c lo hi = (is_digit c \<and> lo \<le> digit_val c \<and> digit_val c \<le> hi)"

text \<open>The group \<^verbatim>\<open>\d\d\d\d\<close> and its \<^verbatim>\<open>int\<close>.\<close>

definition read_year :: "decimal \<Rightarrow> string \<Rightarrow> (nat \<times> string) option" where
  "read_year nd s =
     (case nd s of
        None \<Rightarrow> None
      | Some (a, s1) \<Rightarrow>
          (case nd s1 of
             None \<Rightarrow> None
           | Some (b, s2) \<Rightarrow>
               (case nd s2 of
                  None \<Rightarrow> None
                | Some (c, s3) \<Rightarrow>
                    (case nd s3 of
                       None \<Rightarrow> None
                     | Some (d, s4) \<Rightarrow> Some (1000 * a + 100 * b + 10 * c + d, s4)))))"

definition month_alts :: "string \<Rightarrow> (nat \<times> string) list" where
  "month_alts s =
     (case s of
        a # b # r \<Rightarrow>
          (if a = CHR ''1'' \<and> in_range b 0 2 then [(10 + digit_val b, r)] else []) @
          (if a = CHR ''0'' \<and> in_range b 1 9 then [(digit_val b, r)] else [])
      | _ \<Rightarrow> []) @
     (case s of
        a # r \<Rightarrow> (if in_range a 1 9 then [(digit_val a, r)] else [])
      | [] \<Rightarrow> [])"

definition day_alts :: "decimal \<Rightarrow> string \<Rightarrow> (nat \<times> string) list" where
  "day_alts nd s =
     (case s of
        a # b # r \<Rightarrow>
          (if a = CHR ''3'' \<and> in_range b 0 1 then [(30 + digit_val b, r)] else [])
      | _ \<Rightarrow> []) @
     (case s of
        a # t \<Rightarrow>
          (if in_range a 1 2
           then (case nd t of
                   None \<Rightarrow> []
                 | Some (v, r) \<Rightarrow> [(10 * digit_val a + v, r)])
           else [])
      | [] \<Rightarrow> []) @
     (case s of
        a # b # r \<Rightarrow>
          (if a = CHR ''0'' \<and> in_range b 1 9 then [(digit_val b, r)] else [])
      | _ \<Rightarrow> []) @
     (case s of
        a # r \<Rightarrow> (if in_range a 1 9 then [(digit_val a, r)] else [])
      | [] \<Rightarrow> []) @
     (case s of
        a # b # r \<Rightarrow> (if a = CHR '' '' \<and> in_range b 1 9 then [(digit_val b, r)] else [])
      | _ \<Rightarrow> [])"

text \<open>All matches of the regular expression at the start of \<open>s\<close>, best first.\<close>

definition regex_matches :: "decimal \<Rightarrow> string \<Rightarrow> (nat \<times> nat \<times> nat \<times> string) list" where
  "regex_matches nd s =
     (case read_year nd s of
        None \<Rightarrow> []
      | Some (y, t) \<Rightarrow>
          concat (map (\<lambda>(m, r). map (\<lambda>(d, r'). (y, m, d, r')) (day_alts nd r))
                      (month_alts t)))"

definition is_leap :: "nat \<Rightarrow> bool" where
  "is_leap y = (y mod 4 = 0 \<and> (y mod 100 \<noteq> 0 \<or> y mod 400 = 0))"

definition days_in_month :: "nat \<Rightarrow> nat \<Rightarrow> nat" where
  "days_in_month y m =
     (if m = 2 then (if is_leap y then 29 else 28)
      else if m = 4 \<or> m = 6 \<or> m = 9 \<or> m = 11 then 30 else 31)"

definition valid_date :: "nat \<Rightarrow> nat \<Rightarrow> nat \<Rightarrow> bool" where
  "valid_date y m d =
     (1 \<le> y \<and> y \<le> 9999 \<and> 1 \<le> m \<and> m \<le> 12 \<and> 1 \<le> d \<and> d \<le> days_in_month y m)"

definition strptime_Ymd :: "decimal \<Rightarrow> string \<Rightarrow> error + (nat \<times> nat \<times> nat)" where
  "strptime_Ymd nd s =
     (case regex_matches nd s of
        [] \<Rightarrow> Inl ValueError
      | (y, m, d, rest) # _ \<Rightarrow>
          if rest \<noteq> [] then Inl ValueError
          else if valid_date y m d then Inr (y, m, d)
          else Inl ValueError)"

section \<open>File name, partition and destination key\<close>

text \<open>
  Source lines 136 to 138: the three pieces of the uploaded object's key. The variable
  \<^verbatim>\<open>file_prefix\<close> is \<open>file_prefix_of\<close> here, its own name being reserved in Isabelle.
\<close>

definition file_name :: "string \<Rightarrow> string" where
  "file_name source_key = last (split_on (CHR ''/'') source_key)"

definition file_prefix_of :: "string \<Rightarrow> string" where
  "file_prefix_of fname = hd (split_on (CHR ''.'') fname)"

definition file_extension :: "string \<Rightarrow> string" where
  "file_extension fname = last (split_on (CHR ''.'') fname)"

text \<open>Source lines 145 to 149: the date of the second underscore-delimited segment.\<close>

definition date_of_file_name :: "decimal \<Rightarrow> string \<Rightarrow> error + (nat \<times> nat \<times> nat)" where
  "date_of_file_name nd fname =
     (case py_index (split_on (CHR ''_'') fname) 1 of
        Inl e \<Rightarrow> Inl e
      | Inr date_str \<Rightarrow> strptime_Ymd nd date_str)"

text \<open>Source line 167.\<close>

definition target_key :: "nat \<Rightarrow> nat \<Rightarrow> nat \<Rightarrow> string \<Rightarrow> string" where
  "target_key year month day prefix =
     ''year='' @ str_nat year @ ''/month='' @ fmt_02d month @ ''/day='' @ fmt_02d day
       @ ''/'' @ prefix @ ''.csv''"

section \<open>Parsed JSON\<close>

text \<open>
  What \<^verbatim>\<open>json.loads\<close> returns and \<^verbatim>\<open>json.dumps\<close> takes: None, booleans, numbers,
  strings, lists and dicts with string keys. A dict is an association list read with
  \<open>map_of\<close>; numbers are kept as integers, no operation below looks inside a number.
\<close>

datatype json =
    JNull
  | JBool bool
  | JNum int
  | JStr string
  | JArr "json list"
  | JObj "(string \<times> json) list"

text \<open>
  \<^verbatim>\<open>k in x\<close> for a string \<open>k\<close>: key membership in a dict, substring test in a string,
  element membership in a list, TypeError in anything else.
\<close>

definition py_in :: "string \<Rightarrow> json \<Rightarrow> error + bool" where
  "py_in k x =
     (case x of
        JObj kvs \<Rightarrow> Inr (map_of kvs k \<noteq> None)
      | JStr s \<Rightarrow> Inr (str_contains k s)
      | JArr xs \<Rightarrow> Inr (JStr k \<in> set xs)
      | _ \<Rightarrow> Inl TypeError)"

text \<open>
  \<^verbatim>\<open>x[k]\<close> for a string \<open>k\<close>: the value in a dict (KeyError when the key is missing),
  TypeError in anything else (strings and lists take integer indices only).
\<close>

definition py_getitem :: "json \<Rightarrow> string \<Rightarrow> error + json" where
  "py_getitem x k =
     (case x of
        JObj kvs \<Rightarrow> (case map_of kvs k of None \<Rightarrow> Inl KeyError | Some v \<Rightarrow> Inr v)
      | _ \<Rightarrow> Inl TypeError)"

text \<open>
  \<^verbatim>\<open>for y in x\<close>: the elements of a list, the one-character strings of a string, the keys
  of a dict, TypeError in anything else. A string is walked char by char, so a character
  beyond ASCII comes as several strings here; the loop of the source that walks a string
  finds no \<^verbatim>\<open>Principal\<close> in any of them, as it finds none in the character.
\<close>

definition py_iter :: "json \<Rightarrow> error + json list" where
  "py_iter x =
     (case x of
        JArr xs \<Rightarrow> Inr xs
      | JStr s \<Rightarrow> Inr (map (\<lambda>c. JStr [c]) s)
      | JObj kvs \<Rightarrow> Inr (map JStr (remdups (map fst kvs)))
      | _ \<Rightarrow> Inl TypeError)"

section \<open>Principals of a key policy\<close>

text \<open>
  \<^verbatim>\<open>get_aws_account_arns_from_key_metadata\<close>, source lines 6 to 31. The Python set
  \<^verbatim>\<open>account_arns\<close> is a list without repetitions, a new element going to the end; the
  order in which \<^verbatim>\<open>list(account_arns)\<close> enumerates a set is not fixed by Python, and
  nothing below depends on it.
\<close>

definition set_add :: "string \<Rightarrow> string list \<Rightarrow> string list" where
  "set_add a account_arns = (if a \<in> set account_arns then account_arns else account_arns @ [a])"

text \<open>Lines 27 to 30: the loop over a list-valued \<^verbatim>\<open>principal['AWS']\<close>.\<close>

fun add_arns :: "string list \<Rightarrow> json list \<Rightarrow> error + string list" where
  "add_arns account_arns [] = Inr account_arns"
| "add_arns account_arns (arn # arns) =
     (case arn of
        JStr a \<Rightarrow>
          add_arns (if \<not> endswith a '':root'' then set_add a account_arns else account_arns) arns
      | _ \<Rightarrow> Inl AttributeError)"

text \<open>Lines 19 to 30: the body of the loop over the statements.\<close>

definition add_statement :: "string list \<Rightarrow> json \<Rightarrow> error + string list" where
  "add_statement account_arns statement =
     (case py_in ''Principal'' statement of
        Inl e \<Rightarrow> Inl e
      | Inr False \<Rightarrow> Inr account_arns
      | Inr True \<Rightarrow>
          (case py_getitem statement ''Principal'' of
             Inl e \<Rightarrow> Inl e
           | Inr principal' \<Rightarrow>
               (case py_in ''AWS'' principal' of
                  Inl e \<Rightarrow> Inl e
                | Inr False \<Rightarrow> Inr account_arns
                | Inr True \<Rightarrow>
                    (case py_getitem principal' ''AWS'' of
                       Inl e \<Rightarrow> Inl e
                     | Inr (JStr a) \<Rightarrow>
                         Inr (if \<not> endswith a '':root'' then set_add a account_arns
                              else account_arns)
                     | Inr (JArr arns) \<Rightarrow> add_arns account_arns arns
                     | Inr _ \<Rightarrow> Inr account_arns))))"

text \<open>Line 18: the loop over \<^verbatim>\<open>key_policy['Statement']\<close>.\<close>

fun add_statements :: "string list \<Rightarrow> json list \<Rightarrow> error + string list" where
  "add_statements account_arns [] = Inr account_arns"
| "add_statements account_arns (statement # statements) =
     (case add_statement account_arns statement of
        Inl e \<Rightarrow> Inl e
      | Inr account_arns' \<Rightarrow> add_statements account_arns' statements)"

text \<open>Lines 16 and 18 to 31, on the parsed policy.\<close>

definition account_arns_of_key_policy :: "json \<Rightarrow> error + string list" where
  "account_arns_of_key_policy key_policy =
     (case py_getitem key_policy ''Statement'' of
        Inl e \<Rightarrow> Inl e
      | Inr statements \<Rightarrow>
          (case py_iter statements of
             Inl e \<Rightarrow> Inl e
           | Inr sts \<Rightarrow> add_statements [] sts))"

text \<open>
  The whole function. \<open>key_metadata\<close> is the response dict of \<^verbatim>\<open>get_key_policy\<close>, whose
  \<^verbatim>\<open>'Policy'\<close> entry is the policy as JSON text; \<open>json_loads\<close> is the library's parser,
  a parameter.
\<close>

definition get_aws_account_arns_from_key_metadata ::
  "(string \<Rightarrow> error + json) \<Rightarrow> (string \<times> string) list \<Rightarrow> error + string list" where
  "get_aws_account_arns_from_key_metadata json_loads key_metadata =
     (case map_of key_metadata ''Policy'' of
        None \<Rightarrow> Inl KeyError
      | Some text \<Rightarrow>
          (case json_loads text of
             Inl e \<Rightarrow> Inl e
           | Inr key_policy \<Rightarrow> account_arns_of_key_policy key_policy))"

section \<open>The bucket policy\<close>

text \<open>
  The document built in \<^verbatim>\<open>attach_bucket_policy\<close>, source lines 45 to 84. The source
  assigns \<^verbatim>\<open>bucket_policy\<close> twice; the second dict replaces the first before anything
  reads it.
\<close>

definition bucket_policy :: "string \<Rightarrow> string list \<Rightarrow> json" where
  "bucket_policy bucket_name account_arns =
     (let bucket_policy = JObj
        [(''Version'', JStr ''2012-10-17''),
         (''Statement'', JArr
            [JObj [(''Effect'', JStr ''Deny''),
                   (''NotPrincipal'', JObj [(''AWS'', JArr (map JStr account_arns))]),
                   (''Action'', JStr ''s3:GetObject''),
                   (''Resource'', JStr (''arn:aws:s3:::'' @ bucket_name @ ''/*''))]])];
          bucket_policy = JObj
        [(''Version'', JStr ''2012-10-17''),
         (''Statement'', JArr
            [JObj [(''Effect'', JStr ''Allow''),
                   (''Principal'', JObj [(''AWS'', JArr (map JStr account_arns))]),
                   (''Action'', JStr ''s3:*''),
                   (''Resource'', JArr
                      [JStr (''arn:aws:s3:::'' @ bucket_name),
                       JStr (''arn:aws:s3:::'' @ bucket_name @ ''/*'')])],
             JObj [(''Effect'', JStr ''Deny''),
                   (''NotPrincipal'', JObj [(''AWS'', JArr (map JStr account_arns))]),
                   (''Action'', JStr ''s3:GetObject''),
                   (''Resource'', JArr
                      [JStr (''arn:aws:s3:::'' @ bucket_name),
                       JStr (''arn:aws:s3:::'' @ bucket_name @ ''/*'')])]])]
      in bucket_policy)"

section \<open>Cleaning the grid\<close>

text \<open>
  The frame \<^verbatim>\<open>pd.read_excel(..., header=None)\<close> returns is a list of rows of cells,
  \<open>None\<close> for a missing cell (NaN). A pandas frame is rectangular: every row has the
  frame's number of columns.
\<close>

type_synonym 'c grid = "'c option list list"

definition ncols :: "'c grid \<Rightarrow> nat" where
  "ncols g = (case g of [] \<Rightarrow> 0 | r # _ \<Rightarrow> length r)"

definition rectangular :: "'c grid \<Rightarrow> bool" where
  "rectangular g = (\<forall>r \<in> set g. length r = ncols g)"

text \<open>\<^verbatim>\<open>df.dropna(how='all')\<close>: the rows with at least one value.\<close>

definition dropna_rows :: "'c grid \<Rightarrow> 'c grid" where
  "dropna_rows g = filter (\<lambda>r. \<exists>c \<in> set r. c \<noteq> None) g"

text \<open>
  \<^verbatim>\<open>df.dropna(axis=1, how='all')\<close>: the columns with at least one value; a frame
  without rows has none.
\<close>

definition kept_columns :: "'c grid \<Rightarrow> nat list" where
  "kept_columns g = filter (\<lambda>j. \<exists>r \<in> set g. r ! j \<noteq> None) [0..<ncols g]"

definition dropna_columns :: "'c grid \<Rightarrow> 'c grid" where
  "dropna_columns g = map (\<lambda>r. map (\<lambda>j. r ! j) (kept_columns g)) g"

text \<open>
  Source lines 158 to 160. \<^verbatim>\<open>excel_df.iloc[0]\<close> raises IndexError on a frame without
  rows; otherwise the first row is the header and the rows after it are the data.
\<close>

definition clean :: "'c grid \<Rightarrow> error + ('c option list \<times> 'c grid)" where
  "clean excel_df =
     (let excel_df = dropna_columns (dropna_rows excel_df)
      in case excel_df of
           [] \<Rightarrow> Inl IndexError
         | headers # values \<Rightarrow> Inr (headers, values))"

section \<open>The collaborators\<close>

text \<open>
  What \<^verbatim>\<open>get_bucket_encryption\<close> returns, as far as \<^verbatim>\<open>get_kms_master_key\<close> reads it:
  a dict that may have a \<^verbatim>\<open>ServerSideEncryptionConfiguration\<close>, whose \<^verbatim>\<open>Rules\<close> are
  dicts that may have an \<^verbatim>\<open>ApplyServerSideEncryptionByDefault\<close>, which may name an
  algorithm and a key. \<open>None\<close> is a missing entry.
\<close>

record sse_by_default =
  SSEAlgorithm :: "string option"
  KMSMasterKeyID :: "string option"

record sse_rule =
  ApplyServerSideEncryptionByDefault :: "sse_by_default option"

record sse_configuration =
  Rules :: "sse_rule list option"

record encryption_response =
  ServerSideEncryptionConfiguration :: "sse_configuration option"

text \<open>
  One entry of the log per request sent to a service, with the answer: the value returned
  or the exception raised.
\<close>

datatype call =
    GetObject string string "error + string"
  | PutObject string string string "error + unit"
  | GetBucketEncryption string "error + encryption_response"
  | GetKeyPolicy "string option" string "error + (string \<times> string) list"
  | PutBucketPolicy string string "error + unit"
  | StartCrawler string "error + unit"

text \<open>
  The services and library functions the handler is run against. A service answers from
  the state \<open>'w\<close> of the world outside and may change it; \<^verbatim>\<open>pd.read_excel\<close>,
  \<^verbatim>\<open>DataFrame.to_csv\<close>, \<^verbatim>\<open>json.loads\<close> and \<^verbatim>\<open>json.dumps\<close> are functions of
  their arguments, and \<open>str_decimal\<close> is the table of decimal digits of the Python build.
  \<open>s3_get_object\<close> stands for the request and the read of its body.
  The key handed to \<open>kms_get_key_policy\<close> is whatever \<^verbatim>\<open>get_kms_master_key\<close>
  returned, \<open>None\<close> included.
\<close>

record ('w, 'c) services =
  s3_get_object :: "string \<Rightarrow> string \<Rightarrow> 'w \<Rightarrow> (error + string) \<times> 'w"
  s3_put_object :: "string \<Rightarrow> string \<Rightarrow> string \<Rightarrow> 'w \<Rightarrow> (error + unit) \<times> 'w"
  s3_get_bucket_encryption :: "string \<Rightarrow> 'w \<Rightarrow> (error + encryption_response) \<times> 'w"
  s3_put_bucket_policy :: "string \<Rightarrow> string \<Rightarrow> 'w \<Rightarrow> (error + unit) \<times> 'w"
  kms_get_key_policy ::
    "string option \<Rightarrow> string \<Rightarrow> 'w \<Rightarrow> (error + (string \<times> string) list) \<times> 'w"
  glue_start_crawler :: "string \<Rightarrow> 'w \<Rightarrow> (error + unit) \<times> 'w"
  pd_read_excel :: "string \<Rightarrow> error + 'c grid"
  df_to_csv :: "'c option list \<Rightarrow> 'c grid \<Rightarrow> string"
  json_loads :: "string \<Rightarrow> error + json"
  json_dumps :: "json \<Rightarrow> string"
  str_decimal :: decimal

text \<open>
  A step of the program takes the world and the log so far and returns a value or an
  exception, with the world and the log after it. \<open>bind_io\<close> is the semicolon of the
  source: an exception ends the run, the source catches none.
\<close>

type_synonym ('w, 'a) io = "'w \<times> call list \<Rightarrow> (error + 'a) \<times> ('w \<times> call list)"

definition bind_io :: "('w, 'a) io \<Rightarrow> ('a \<Rightarrow> ('w, 'b) io) \<Rightarrow> ('w, 'b) io" where
  "bind_io m f st = (case m st of (Inl e, st') \<Rightarrow> (Inl e, st') | (Inr x, st') \<Rightarrow> f x st')"

definition pure_io :: "error + 'a \<Rightarrow> ('w, 'a) io" where
  "pure_io r st = (r, st)"

text \<open>A request: the service answers, the request and its answer go to the log.\<close>

definition request ::
  "('w \<Rightarrow> (error + 'a) \<times> 'w) \<Rightarrow> ((error + 'a) \<Rightarrow> call) \<Rightarrow> ('w, 'a) io" where
  "request service entry st =
     (case st of (w, log) \<Rightarrow>
        (case service w of (r, w') \<Rightarrow> (r, (w', log @ [entry r]))))"

section \<open>The functions of the source\<close>

text \<open>\<^verbatim>\<open>attach_bucket_policy\<close>, source lines 33 to 86.\<close>

definition attach_bucket_policy ::
  "('w, 'c) services \<Rightarrow> string \<Rightarrow> string list \<Rightarrow> ('w, unit) io" where
  "attach_bucket_policy sv bucket_name account_arns =
     (let bucket_policy_str = json_dumps sv (bucket_policy bucket_name account_arns)
      in request (s3_put_bucket_policy sv bucket_name bucket_policy_str)
                 (PutBucketPolicy bucket_name bucket_policy_str))"

text \<open>\<^verbatim>\<open>get_kms_key_metadata\<close>, source lines 88 to 99.\<close>

definition get_kms_key_metadata ::
  "('w, 'c) services \<Rightarrow> string option \<Rightarrow> ('w, (string \<times> string) list) io" where
  "get_kms_key_metadata sv key_arn =
     request (kms_get_key_policy sv key_arn ''default'') (GetKeyPolicy key_arn ''default'')"

text \<open>
  \<^verbatim>\<open>get_kms_master_key\<close>, source lines 102 to 126. The loop returns at the first rule
  whose algorithm is \<^verbatim>\<open>aws:kms\<close>, with that rule's key or with \<open>None\<close> when the rule
  names no key.
\<close>

fun first_kms_rule :: "sse_rule list \<Rightarrow> string option" where
  "first_kms_rule [] = None"
| "first_kms_rule (rule # rules) =
     (case ApplyServerSideEncryptionByDefault rule of
        None \<Rightarrow> first_kms_rule rules
      | Some by_default \<Rightarrow>
          (if SSEAlgorithm by_default = Some ''aws:kms'' then KMSMasterKeyID by_default
           else first_kms_rule rules))"

definition kms_master_key_of :: "encryption_response \<Rightarrow> error + string option" where
  "kms_master_key_of response =
     (case ServerSideEncryptionConfiguration response of
        None \<Rightarrow> Inr None
      | Some encryption_config \<Rightarrow>
          (case Rules encryption_config of
             None \<Rightarrow> Inl KeyError
           | Some rules \<Rightarrow> Inr (first_kms_rule rules)))"

definition get_kms_master_key :: "('w, 'c) services \<Rightarrow> string \<Rightarrow> ('w, string option) io" where
  "get_kms_master_key sv bucket_name =
     bind_io (request (s3_get_bucket_encryption sv bucket_name) (GetBucketEncryption bucket_name))
       (\<lambda>response. pure_io (kms_master_key_of response))"

text \<open>
  \<^verbatim>\<open>lambda_handler\<close>, source lines 128 to 197. The trigger event is read for the bucket
  name and the object key of its first record; the \<^verbatim>\<open>print\<close> calls are left out.
\<close>

record s3_event =
  event_bucket_name :: string
  event_object_key :: string

record response =
  statusCode :: nat
  body :: string

definition target_bucket :: string where
  "target_bucket = ''input-data-bucket-eu-west-2''"

definition lambda_handler ::
  "('w, 'c) services \<Rightarrow> s3_event \<Rightarrow> 'w \<Rightarrow> (error + response) \<times> ('w \<times> call list)" where
  "lambda_handler sv event w =
     (let source_bucket = event_bucket_name event;
          source_key = event_object_key event;
          fname = file_name source_key;
          fprefix = file_prefix_of fname;
          fextension = file_extension fname
      in
        (if lower fextension = ''xlsx'' then
           bind_io (pure_io (date_of_file_name (str_decimal sv) fname)) (\<lambda>(year, month, day).
           bind_io (request (s3_get_object sv source_bucket source_key)
                            (GetObject source_bucket source_key)) (\<lambda>excel_data.
           bind_io (pure_io (pd_read_excel sv excel_data)) (\<lambda>excel_df.
           bind_io (pure_io (clean excel_df)) (\<lambda>(headers, values).
           let csv_data = df_to_csv sv headers values;
               tkey = target_key year month day fprefix
           in
           bind_io (request (s3_put_object sv target_bucket tkey csv_data)
                            (PutObject target_bucket tkey csv_data)) (\<lambda>_.
           bind_io (get_kms_master_key sv target_bucket) (\<lambda>key_arn.
           bind_io (get_kms_key_metadata sv key_arn) (\<lambda>key_metadata.
           bind_io (pure_io (get_aws_account_arns_from_key_metadata (json_loads sv) key_metadata))
             (\<lambda>aws_account_arns.
           bind_io (attach_bucket_policy sv target_bucket aws_account_arns) (\<lambda>_.
           bind_io (request (glue_start_crawler sv ''s3_input_crawler'')
                            (StartCrawler ''s3_input_crawler'')) (\<lambda>_.
           pure_io (Inr \<lparr>statusCode = 200,
                         body = ''File '' @ fname @ '' converted and stored as '' @ tkey
                                @ '' in '' @ target_bucket\<rparr>)))))))))))
         else
           pure_io (Inr \<lparr>statusCode = 400,
                         body = ''Error: '' @ fname @ '' is not an Excel file''\<rparr>))
        (w, []))"

section \<open>What the specification says, in its own words\<close>

text \<open>
  The definitions of this section are not taken from the source: they phrase the
  specification's side of a statement, to be compared with the functions above.
\<close>

text \<open>The entry \<open>k\<close> of a JSON object, when there is one.\<close>

definition field :: "string \<Rightarrow> json \<Rightarrow> json option" where
  "field k x = (case x of JObj kvs \<Rightarrow> map_of kvs k | _ \<Rightarrow> None)"

definition is_JStr :: "json \<Rightarrow> bool" where
  "is_JStr x = (case x of JStr _ \<Rightarrow> True | _ \<Rightarrow> False)"

text \<open>
  A statement of a key policy document: an object whose \<^verbatim>\<open>Principal\<close>, when it has
  one, is the wildcard or another string that does not spell \<^verbatim>\<open>AWS\<close>, or an object;
  when that object has an \<^verbatim>\<open>AWS\<close> entry that is a list, the list holds strings. The
  entry may be of any other JSON type as well.
\<close>

definition policy_statement :: "json \<Rightarrow> bool" where
  "policy_statement statement =
     (case statement of
        JObj kvs \<Rightarrow>
          (case map_of kvs ''Principal'' of
             None \<Rightarrow> True
           | Some (JStr s) \<Rightarrow> \<not> str_contains ''AWS'' s
           | Some (JObj p) \<Rightarrow>
               (case map_of p ''AWS'' of
                  Some (JArr arns) \<Rightarrow> list_all is_JStr arns
                | _ \<Rightarrow> True)
           | Some _ \<Rightarrow> False)
      | _ \<Rightarrow> False)"

text \<open>A key policy document: an object with a list of such statements.\<close>

definition key_policy_document :: "json \<Rightarrow> bool" where
  "key_policy_document doc =
     (case field ''Statement'' doc of
        Some (JArr statements) \<Rightarrow> list_all policy_statement statements
      | _ \<Rightarrow> False)"

definition statements_of :: "json \<Rightarrow> json list" where
  "statements_of doc =
     (case field ''Statement'' doc of Some (JArr statements) \<Rightarrow> statements | _ \<Rightarrow> [])"

text \<open>
  The identifiers in a statement's \<^verbatim>\<open>Principal\<close> \<^verbatim>\<open>AWS\<close> field: the field itself
  when it is a string, its string elements when it is a list.
\<close>

definition aws_identifiers :: "json \<Rightarrow> string set" where
  "aws_identifiers statement =
     (case field ''Principal'' statement of
        None \<Rightarrow> {}
      | Some p \<Rightarrow>
          (case field ''AWS'' p of
             Some (JStr a) \<Rightarrow> {a}
           | Some (JArr arns) \<Rightarrow> {a. JStr a \<in> set arns}
           | _ \<Rightarrow> {}))"

text \<open>The identifiers of a set that do not end with \<^verbatim>\<open>:root\<close>.\<close>

definition qualifying :: "string set \<Rightarrow> string set" where
  "qualifying A = {a \<in> A. \<not> (\<exists>p. a = p @ '':root'')}"

definition spec_principals :: "json \<Rightarrow> string set" where
  "spec_principals doc =
     qualifying (\<Union>statement \<in> set (statements_of doc). aws_identifiers statement)"





section \<open>Example collaborators\<close>

text \<open>
  A key policy with a list-valued, a string-valued, a service and a wildcard principal;
  a sheet with two blank rows and a blank column around its cells; a bucket with a KMS
  default key and one with AES256; services that answer every request, a KMS that rejects
  a missing key identifier as boto3's parameter validation does; a table of decimal
  digits with the ASCII digits and the Arabic-Indic digits U+0660 to U+0669, whose
  encodings are the char 217 followed by a char from 160 to 169.
\<close>

definition example_decimal :: decimal where
  "example_decimal s =
     (case s of
        [] \<Rightarrow> None
      | c # r \<Rightarrow>
          if is_digit c then Some (digit_val c, r)
          else (case r of
                  [] \<Rightarrow> None
                | c' # r' \<Rightarrow>
                    if (of_char c :: nat) = 217 \<and> 160 \<le> (of_char c' :: nat)
                       \<and> (of_char c' :: nat) \<le> 169
                    then Some (of_char c' - 160, r')
                    else None))"


definition example_key_policy :: json where
  "example_key_policy = JObj
     [(''Version'', JStr ''2012-10-17''),
      (''Statement'', JArr
        [JObj [(''Effect'', JStr ''Allow''),
               (''Principal'', JObj [(''AWS'', JArr [JStr ''arn:aws:iam::111:root'',
                                                     JStr ''arn:aws:iam::222:user/x''])]),
               (''Action'', JStr ''kms:*''), (''Resource'', JStr ''*'')],
         JObj [(''Effect'', JStr ''Allow''),
               (''Principal'', JObj [(''AWS'', JStr ''arn:aws:iam::222:user/x'')]),
               (''Action'', JStr ''kms:Decrypt''), (''Resource'', JStr ''*'')],
         JObj [(''Effect'', JStr ''Allow''),
               (''Principal'', JObj [(''Service'', JStr ''s3.amazonaws.com'')]),
               (''Action'', JStr ''kms:Decrypt''), (''Resource'', JStr ''*'')],
         JObj [(''Effect'', JStr ''Deny''), (''Principal'', JStr ''*''),
               (''Action'', JStr ''kms:Delete*''), (''Resource'', JStr ''*'')]])]"

definition example_grid :: "string grid" where
  "example_grid =
     [[None, None, None, None],
      [None, Some ''id'', Some ''item'', Some ''qty''],
      [None, None, None, None],
      [None, Some ''1'', Some ''pen'', Some ''4'']]"

definition kms_encryption :: encryption_response where
  "kms_encryption = \<lparr>ServerSideEncryptionConfiguration = Some \<lparr>Rules = Some
     [\<lparr>ApplyServerSideEncryptionByDefault =
         Some \<lparr>SSEAlgorithm = Some ''aws:kms'', KMSMasterKeyID = Some ''key-1''\<rparr>\<rparr>]\<rparr>\<rparr>"

definition aes_encryption :: encryption_response where
  "aes_encryption = \<lparr>ServerSideEncryptionConfiguration = Some \<lparr>Rules = Some
     [\<lparr>ApplyServerSideEncryptionByDefault =
         Some \<lparr>SSEAlgorithm = Some ''AES256'', KMSMasterKeyID = None\<rparr>\<rparr>]\<rparr>\<rparr>"

definition example_services :: "(unit, string) services" where
  "example_services =
     \<lparr>s3_get_object = (\<lambda>bucket key w. (Inr ''xlsx-bytes'', w)),
      s3_put_object = (\<lambda>bucket key data w. (Inr (), w)),
      s3_get_bucket_encryption = (\<lambda>bucket w. (Inr kms_encryption, w)),
      s3_put_bucket_policy = (\<lambda>bucket policy w. (Inr (), w)),
      kms_get_key_policy = (\<lambda>key_id policy_name w.
        (case key_id of
           None \<Rightarrow> Inl (ExternalError ''ParamValidationError'')
         | Some _ \<Rightarrow> Inr [(''Policy'', ''policy-text'')], w)),
      glue_start_crawler = (\<lambda>name w. (Inr (), w)),
      pd_read_excel = (\<lambda>data. Inr example_grid),
      df_to_csv = (\<lambda>headers rows. ''csv-text''),
      json_loads = (\<lambda>text. Inr example_key_policy),
      json_dumps = (\<lambda>doc. ''policy-json''),
      str_decimal = example_decimal\<rparr>"

definition crawler_down :: "(unit, string) services" where
  "crawler_down = example_services
     \<lparr>glue_start_crawler := (\<lambda>name w. (Inl (ExternalError ''CrawlerRunningException''), w))\<rparr>"

definition no_kms_key :: "(unit, string) services" where
  "no_kms_key = example_services
     \<lparr>s3_get_bucket_encryption := (\<lambda>bucket w. (Inr aes_encryption, w))\<rparr>"

definition sales_event :: s3_event where
  "sales_event =
     \<lparr>event_bucket_name = ''uploads'', event_object_key = ''in/sales_20230901_q.xlsx''\<rparr>"

definition notes_event :: s3_event where
  "notes_event = \<lparr>event_bucket_name = ''uploads'', event_object_key = ''in/notes.txt''\<rparr>"

section \<open>Strings and digits\<close>

lemma split_on_not_Nil: "split_on sep s \<noteq> []"
  by (induction s) (auto split: list.splits)

lemma endswith_iff: "endswith s t \<longleftrightarrow> (\<exists>p. s = p @ t)"
proof
  assume "endswith s t"
  then have "s = take (length s - length t) s @ t"
    by (metis append_take_drop_id endswith_def)
  then show "\<exists>p. s = p @ t" ..
next
  assume "\<exists>p. s = p @ t"
  then show "endswith s t" by (auto simp: endswith_def)
qed



section \<open>The date parser\<close>



lemma digit_val_le: "is_digit c \<Longrightarrow> digit_val c \<le> 9"
  by (auto simp: is_digit_def digit_val_def Let_def)




lemma is_digit_ascii: "is_digit c \<Longrightarrow> (of_char c :: nat) < 128"
  by (simp add: is_digit_def Let_def)


lemma decimal_digits_digit:
  "decimal_digits nd \<Longrightarrow> is_digit c \<Longrightarrow> nd (c # r) = Some (digit_val c, r)"
  using is_digit_ascii [of c] by (simp add: decimal_digits_def)


lemma example_decimal_digits: "decimal_digits example_decimal"
  by (auto simp: decimal_digits_def example_decimal_def split: list.splits)







lemma in_range_mono: "in_range a lo hi \<Longrightarrow> lo' \<le> lo \<Longrightarrow> hi \<le> hi' \<Longrightarrow> in_range a lo' hi'"
  by (simp add: in_range_def)



lemma day_alts_Cons:
  "day_alts nd (a # t) =
     (case t of b # r \<Rightarrow>
        (if a = CHR ''3'' \<and> in_range b 0 1 then [(30 + digit_val b, r)] else []) | [] \<Rightarrow> []) @
     (if in_range a 1 2
      then (case nd t of None \<Rightarrow> [] | Some (v, r) \<Rightarrow> [(10 * digit_val a + v, r)])
      else []) @
     (case t of b # r \<Rightarrow>
        (if a = CHR ''0'' \<and> in_range b 1 9 then [(digit_val b, r)] else []) | [] \<Rightarrow> []) @
     (if in_range a 1 9 then [(digit_val a, t)] else []) @
     (case t of b # r \<Rightarrow>
        (if a = CHR '' '' \<and> in_range b 1 9 then [(digit_val b, r)] else []) | [] \<Rightarrow> [])"
  unfolding day_alts_def by (cases t) (simp_all only: list.case)



















section \<open>The principals\<close>

lemma set_set_add: "set (set_add a xs) = insert a (set xs)"
  by (auto simp: set_add_def)

lemma distinct_set_add: "distinct xs \<Longrightarrow> distinct (set_add a xs)"
  by (auto simp: set_add_def)

lemma add_arns_strings:
  "list_all is_JStr arns \<Longrightarrow> distinct acc \<Longrightarrow>
   \<exists>r. add_arns acc arns = Inr r \<and> distinct r \<and>
       set r = set acc \<union> qualifying {a. JStr a \<in> set arns}"
proof (induction arns arbitrary: acc)
  case Nil
  then show ?case by (simp add: qualifying_def)
next
  case (Cons x arns)
  then obtain a where x: "x = JStr a" by (cases x) (auto simp: is_JStr_def)
  let ?acc = "if \<not> endswith a '':root'' then set_add a acc else acc"
  have d: "distinct ?acc" using Cons.prems by (simp add: distinct_set_add)
  have l: "list_all is_JStr arns" using Cons.prems by simp
  from Cons.IH [OF l d] obtain r where r: "add_arns ?acc arns = Inr r" "distinct r"
    "set r = set ?acc \<union> qualifying {a. JStr a \<in> set arns}" by blast
  have "set ?acc \<union> qualifying {a. JStr a \<in> set arns}
          = set acc \<union> qualifying {b. JStr b \<in> set (x # arns)}"
    unfolding x by (auto simp: qualifying_def set_set_add endswith_iff)
  then show ?case using r x by simp
qed

lemma add_statement_ok:
  assumes ps: "policy_statement statement" and d: "distinct acc"
  shows "\<exists>r. add_statement acc statement = Inr r \<and> distinct r \<and>
       set r = set acc \<union> qualifying (aws_identifiers statement)"
proof -
  obtain kvs where st: "statement = JObj kvs"
    using ps by (cases statement) (auto simp: policy_statement_def)
  show ?thesis
  proof (cases "map_of kvs ''Principal''")
    case None
    then show ?thesis using st d
      by (simp add: add_statement_def py_in_def aws_identifiers_def field_def qualifying_def)
  next
    case (Some pr)
    show ?thesis
    proof (cases pr)
      case (JStr s)
      then have "\<not> str_contains ''AWS'' s" using ps st Some by (simp add: policy_statement_def)
      then show ?thesis using st d Some JStr
        by (simp add: add_statement_def py_in_def py_getitem_def aws_identifiers_def field_def
            qualifying_def)
    next
      case (JObj p)
      show ?thesis
      proof (cases "map_of p ''AWS''")
        case None
        then show ?thesis using st d Some JObj
          by (simp add: add_statement_def py_in_def py_getitem_def aws_identifiers_def field_def
              qualifying_def)
      next
        case aws: (Some v)
        show ?thesis
        proof (cases v)
          case (JStr a)
          then show ?thesis using st d Some JObj aws
            by (auto simp: add_statement_def py_in_def py_getitem_def aws_identifiers_def
                field_def qualifying_def set_set_add distinct_set_add endswith_iff)
        next
          case (JArr arns)
          then have "list_all is_JStr arns" using ps st Some JObj aws
            by (simp add: policy_statement_def)
          from add_arns_strings [OF this d] show ?thesis using st Some JObj aws JArr
            by (simp add: add_statement_def py_in_def py_getitem_def aws_identifiers_def
                field_def)
        qed (use st d Some JObj aws in \<open>simp_all add: add_statement_def py_in_def py_getitem_def
              aws_identifiers_def field_def qualifying_def\<close>)
      qed
    qed (use ps st Some in \<open>simp_all add: policy_statement_def\<close>)
  qed
qed

lemma add_statements_ok:
  "list_all policy_statement statements \<Longrightarrow> distinct acc \<Longrightarrow>
   \<exists>r. add_statements acc statements = Inr r \<and> distinct r \<and>
       set r = set acc \<union> qualifying (\<Union>statement \<in> set statements. aws_identifiers statement)"
proof (induction statements arbitrary: acc)
  case Nil
  then show ?case by (simp add: qualifying_def)
next
  case (Cons x xs)
  have px: "policy_statement x" and pxs: "list_all policy_statement xs"
    using Cons.prems by simp_all
  from add_statement_ok [OF px Cons.prems(2)] obtain r1 where
    r1: "add_statement acc x = Inr r1" "distinct r1"
        "set r1 = set acc \<union> qualifying (aws_identifiers x)" by blast
  from Cons.IH [OF pxs r1(2)] obtain r where
    r: "add_statements r1 xs = Inr r" "distinct r"
       "set r = set r1 \<union> qualifying (\<Union>statement \<in> set xs. aws_identifiers statement)" by blast
  have "set r = set acc \<union> qualifying (\<Union>statement \<in> set (x # xs). aws_identifiers statement)"
    using r(3) r1(3) by (auto simp: qualifying_def)
  then show ?case using r1 r by simp
qed

lemma account_arns_of_key_policy_ok:
  assumes "key_policy_document doc"
  shows "\<exists>arns. account_arns_of_key_policy doc = Inr arns \<and> distinct arns \<and>
           set arns = spec_principals doc"
proof -
  obtain kvs where doc: "doc = JObj kvs"
    using assms by (cases doc) (auto simp: key_policy_document_def field_def)
  obtain v where v: "map_of kvs ''Statement'' = Some v"
    using assms doc
    by (cases "map_of kvs ''Statement''") (auto simp: key_policy_document_def field_def)
  obtain statements where sts: "map_of kvs ''Statement'' = Some (JArr statements)"
    and wf: "list_all policy_statement statements"
    using assms doc v by (cases v) (auto simp: key_policy_document_def field_def)
  from add_statements_ok [OF wf, of "[]"] obtain r where
    r: "add_statements [] statements = Inr r" "distinct r"
       "set r = qualifying (\<Union>statement \<in> set statements. aws_identifiers statement)" by auto
  have "statements_of doc = statements" using doc sts by (simp add: statements_of_def field_def)
  then have "spec_principals doc = set r"
    using r(3) by (simp add: spec_principals_def)
  then show ?thesis using r doc sts
    by (simp add: account_arns_of_key_policy_def py_getitem_def py_iter_def)
qed

lemma example_key_policy_document: "key_policy_document example_key_policy"
  by (simp add: example_key_policy_def key_policy_document_def field_def policy_statement_def
      is_JStr_def)

lemma example_key_policy_arns:
  "get_aws_account_arns_from_key_metadata (\<lambda>text. Inr example_key_policy)
     [(''Policy'', ''policy-text'')] = Inr [''arn:aws:iam::222:user/x'']"
  by (simp add: get_aws_account_arns_from_key_metadata_def example_key_policy_def
      account_arns_of_key_policy_def py_getitem_def py_iter_def add_statement_def py_in_def
      endswith_def set_add_def)

section \<open>The cleaning step\<close>

lemma dropna_rows_subset: "set (dropna_rows g) \<subseteq> set g"
  by (auto simp: dropna_rows_def)

lemma dropna_rows_has_value: "r \<in> set (dropna_rows g) \<Longrightarrow> \<exists>c \<in> set r. c \<noteq> None"
  by (auto simp: dropna_rows_def)

lemma rectangular_length: "rectangular g \<Longrightarrow> r \<in> set g \<Longrightarrow> length r = ncols g"
  by (simp add: rectangular_def)

lemma rectangular_dropna_rows:
  assumes rect: "rectangular g"
  shows "rectangular (dropna_rows g)"
proof (cases "dropna_rows g")
  case Nil
  then show ?thesis by (simp add: rectangular_def)
next
  case (Cons h t)
  have "h \<in> set g" using Cons dropna_rows_subset [of g] by auto
  then have h: "length h = ncols g" by (rule rectangular_length [OF rect])
  have "\<forall>r \<in> set (dropna_rows g). length r = ncols g"
    using rect dropna_rows_subset [of g] by (auto dest: rectangular_length)
  then show ?thesis using Cons h by (simp add: rectangular_def ncols_def)
qed

lemma dropna_columns_row_length:
  "r \<in> set (dropna_columns g) \<Longrightarrow> length r = length (kept_columns g)"
  by (auto simp: dropna_columns_def)

lemma dropna_columns_row_has_value:
  assumes rect: "rectangular g" and all: "\<forall>r \<in> set g. \<exists>c \<in> set r. c \<noteq> None"
    and r': "r' \<in> set (dropna_columns g)"
  shows "\<exists>c \<in> set r'. c \<noteq> None"
proof -
  obtain r where r: "r \<in> set g" and r'_def: "r' = map (\<lambda>j. r ! j) (kept_columns g)"
    using r' by (auto simp: dropna_columns_def)
  obtain c where "c \<in> set r" "c \<noteq> None" using all r by blast
  then obtain i where i: "i < length r" "r ! i \<noteq> None" by (auto simp: in_set_conv_nth)
  have "i < ncols g" using i rectangular_length [OF rect r] by simp
  then have "i \<in> set (kept_columns g)" using i r by (auto simp: kept_columns_def)
  then have "r ! i \<in> set r'" by (auto simp: r'_def)
  then show ?thesis using i by blast
qed

lemma dropna_columns_column_has_value:
  assumes k: "k < length (kept_columns g)"
  shows "\<exists>r' \<in> set (dropna_columns g). r' ! k \<noteq> None"
proof -
  have "kept_columns g ! k \<in> set (kept_columns g)" using k by simp
  then obtain r where r: "r \<in> set g" "r ! (kept_columns g ! k) \<noteq> None"
    by (auto simp: kept_columns_def)
  have "map (\<lambda>j. r ! j) (kept_columns g) \<in> set (dropna_columns g)"
    using r by (auto simp: dropna_columns_def)
  moreover have "map (\<lambda>j. r ! j) (kept_columns g) ! k \<noteq> None" using r k by simp
  ultimately show ?thesis by blast
qed

lemma clean_Inl:
  assumes "clean g = Inl e"
  shows "e = IndexError \<and> (\<forall>r \<in> set g. \<forall>c \<in> set r. c = None)"
proof -
  from assms have "dropna_columns (dropna_rows g) = []" and e: "e = IndexError"
    by (auto simp: clean_def Let_def split: list.splits)
  then have "dropna_rows g = []" by (simp add: dropna_columns_def)
  then have "\<forall>r \<in> set g. \<forall>c \<in> set r. c = None"
    by (auto simp: dropna_rows_def filter_empty_conv)
  with e show ?thesis by simp
qed

lemma example_grid_clean:
  "clean example_grid =
     Inr ([Some ''id'', Some ''item'', Some ''qty''], [[Some ''1'', Some ''pen'', Some ''4'']])"
  by code_simp

section \<open>Runs of the handler\<close>

lemmas run_defs = lambda_handler_def Let_def bind_io_def pure_io_def request_def
  get_kms_master_key_def get_kms_key_metadata_def attach_bucket_policy_def



lemma example_run:
  "lambda_handler example_services sales_event () =
     (Inr \<lparr>statusCode = 200,
           body = ''File sales_20230901_q.xlsx converted and stored as year=2023/month=09/day=01/sales_20230901_q.csv in input-data-bucket-eu-west-2''\<rparr>,
      (),
      [GetObject ''uploads'' ''in/sales_20230901_q.xlsx'' (Inr ''xlsx-bytes''),
       PutObject ''input-data-bucket-eu-west-2''
         ''year=2023/month=09/day=01/sales_20230901_q.csv'' ''csv-text'' (Inr ()),
       GetBucketEncryption ''input-data-bucket-eu-west-2'' (Inr kms_encryption),
       GetKeyPolicy (Some ''key-1'') ''default'' (Inr [(''Policy'', ''policy-text'')]),
       PutBucketPolicy ''input-data-bucket-eu-west-2'' ''policy-json'' (Inr ()),
       StartCrawler ''s3_input_crawler'' (Inr ())])"
  by code_simp

lemma crawler_down_run:
  "lambda_handler crawler_down sales_event () =
     (Inl (ExternalError ''CrawlerRunningException''),
      (),
      [GetObject ''uploads'' ''in/sales_20230901_q.xlsx'' (Inr ''xlsx-bytes''),
       PutObject ''input-data-bucket-eu-west-2''
         ''year=2023/month=09/day=01/sales_20230901_q.csv'' ''csv-text'' (Inr ()),
       GetBucketEncryption ''input-data-bucket-eu-west-2'' (Inr kms_encryption),
       GetKeyPolicy (Some ''key-1'') ''default'' (Inr [(''Policy'', ''policy-text'')]),
       PutBucketPolicy ''input-data-bucket-eu-west-2'' ''policy-json'' (Inr ()),
       StartCrawler ''s3_input_crawler'' (Inl (ExternalError ''CrawlerRunningException''))])"
  by code_simp

lemma no_kms_key_run:
  "lambda_handler no_kms_key sales_event () =
     (Inl (ExternalError ''ParamValidationError''),
      (),
      [GetObject ''uploads'' ''in/sales_20230901_q.xlsx'' (Inr ''xlsx-bytes''),
       PutObject ''input-data-bucket-eu-west-2''
         ''year=2023/month=09/day=01/sales_20230901_q.csv'' ''csv-text'' (Inr ()),
       GetBucketEncryption ''input-data-bucket-eu-west-2'' (Inr aes_encryption),
       GetKeyPolicy None ''default'' (Inl (ExternalError ''ParamValidationError''))])"
  by code_simp

lemma aes_has_no_key: "kms_master_key_of aes_encryption = Inr None"
  by code_simp



text \<open>The token \<^verbatim>\<open>20240315\<close>, whatever the table of decimal digits.\<close>

lemma report_token:
  assumes nd: "decimal_digits nd"
  shows "strptime_Ymd nd ''20240315'' = Inr (2024, 3, 15)"
proof -
  have d: "\<And>c r. is_digit c \<Longrightarrow> nd (c # r) = Some (digit_val c, r)"
    by (rule decimal_digits_digit [OF nd])
  have y: "read_year nd ''20240315'' = Some (2024, ''0315'')"
    by (simp add: read_year_def d is_digit_def digit_val_def)
  have m: "month_alts ''0315'' = [(3, ''15'')]"
    by (simp add: month_alts_def in_range_def is_digit_def digit_val_def)
  have "day_alts nd ''15'' = [(15, []), (1, ''5'')]"
    by (simp add: day_alts_Cons d in_range_def is_digit_def digit_val_def)
  with y m have "regex_matches nd ''20240315'' = [(2024, 3, 15, []), (2024, 3, 1, ''5'')]"
    by (simp add: regex_matches_def)
  moreover have "valid_date 2024 3 15" by (simp add: valid_date_def days_in_month_def)
  ultimately show ?thesis by (simp add: strptime_Ymd_def)
qed

section \<open>The claims\<close>

subsection \<open>C1: the bucket policy\<close>

text \<open>
  Claim C1. For every bucket name and every list of accounts, the empty one included, the
  policy \<^verbatim>\<open>attach_bucket_policy\<close> builds has exactly two statements: an Allow whose
  Principal AWS list is the given accounts, with action \<^verbatim>\<open>s3:*\<close> on the bucket ARN and
  the bucket ARN plus \<^verbatim>\<open>/*\<close>, and a Deny whose NotPrincipal AWS list is the given
  accounts, with action \<^verbatim>\<open>s3:GetObject\<close> on the same two resources; and the one
  request the function sends puts the serialisation of this policy on the bucket.
\<close>

theorem bucket_policy_two_statements:
  "\<exists>allow deny.
     field ''Statement'' (bucket_policy b accounts) = Some (JArr [allow, deny]) \<and>
     field ''Effect'' allow = Some (JStr ''Allow'') \<and>
     field ''Principal'' allow = Some (JObj [(''AWS'', JArr (map JStr accounts))]) \<and>
     field ''Action'' allow = Some (JStr ''s3:*'') \<and>
     field ''Resource'' allow =
       Some (JArr [JStr (''arn:aws:s3:::'' @ b), JStr (''arn:aws:s3:::'' @ b @ ''/*'')]) \<and>
     field ''Effect'' deny = Some (JStr ''Deny'') \<and>
     field ''NotPrincipal'' deny = Some (JObj [(''AWS'', JArr (map JStr accounts))]) \<and>
     field ''Action'' deny = Some (JStr ''s3:GetObject'') \<and>
     field ''Resource'' deny =
       Some (JArr [JStr (''arn:aws:s3:::'' @ b), JStr (''arn:aws:s3:::'' @ b @ ''/*'')]) \<and>
     snd (snd (attach_bucket_policy sv b accounts (w, log))) =
       log @ [PutBucketPolicy b (json_dumps sv (bucket_policy b accounts))
                (fst (s3_put_bucket_policy sv b (json_dumps sv (bucket_policy b accounts)) w))]"
  by (simp add: bucket_policy_def field_def attach_bucket_policy_def request_def Let_def
      split: prod.splits)

text \<open>The policy for the bucket \<^verbatim>\<open>b\<close> and no account: both lists are empty.\<close>

theorem bucket_policy_two_statements_witness:
  "\<exists>allow deny.
     field ''Statement'' (bucket_policy ''b'' []) = Some (JArr [allow, deny]) \<and>
     field ''Effect'' allow = Some (JStr ''Allow'') \<and>
     field ''Principal'' allow = Some (JObj [(''AWS'', JArr [])]) \<and>
     field ''Effect'' deny = Some (JStr ''Deny'') \<and>
     field ''NotPrincipal'' deny = Some (JObj [(''AWS'', JArr [])]) \<and>
     snd (snd (attach_bucket_policy example_services ''b'' [] ((), []))) =
       [PutBucketPolicy ''b'' ''policy-json'' (Inr ())]"
proof -
  have "json_dumps example_services (bucket_policy ''b'' []) = ''policy-json''"
    and "fst (s3_put_bucket_policy example_services ''b'' ''policy-json'' ()) = Inr ()"
    by (simp_all add: example_services_def)
  then show ?thesis
    using bucket_policy_two_statements [of "''b''" "[]" example_services "()" "[]"]
    by auto
qed

subsection \<open>C2: a bucket without a KMS key\<close>

text \<open>
  Claim C2 says that an invocation whose destination bucket has no KMS default key skips
  principal extraction and policy application and still completes. The handler does not
  do so. \<^verbatim>\<open>get_kms_master_key\<close> returns None, as its docstring says it may, and line
  178 hands the result unchecked to \<^verbatim>\<open>get_kms_key_metadata\<close>, whose docstring asks
  for a string. In the run below the encryption of the bucket is AES256: the object has
  been written, the key policy is requested with None for the key, and the invocation
  ends with the exception of that request.
\<close>

theorem missing_key_run:
  "kms_master_key_of aes_encryption = Inr None \<and>
   lambda_handler no_kms_key sales_event () =
     (Inl (ExternalError ''ParamValidationError''),
      (),
      [GetObject ''uploads'' ''in/sales_20230901_q.xlsx'' (Inr ''xlsx-bytes''),
       PutObject ''input-data-bucket-eu-west-2''
         ''year=2023/month=09/day=01/sales_20230901_q.csv'' ''csv-text'' (Inr ()),
       GetBucketEncryption ''input-data-bucket-eu-west-2'' (Inr aes_encryption),
       GetKeyPolicy None ''default'' (Inl (ExternalError ''ParamValidationError''))])"
  using aes_has_no_key no_kms_key_run by simp

subsection \<open>C3: the destination key\<close>



subsection \<open>C4: the file \<^verbatim>\<open>report_20240315_v1.xlsx\<close>\<close>

text \<open>
  Claim C4 as stated fails: the prefix of \<^verbatim>\<open>report_20240315_v1.xlsx\<close> is everything
  before its first dot, not \<^verbatim>\<open>report\<close>, and the key does not end in
  \<^verbatim>\<open>report.csv\<close>.
\<close>

theorem report_key_counterexample:
  "file_prefix_of ''report_20240315_v1.xlsx'' \<noteq> ''report'' \<and>
   target_key 2024 3 15 (file_prefix_of ''report_20240315_v1.xlsx'')
     \<noteq> ''year=2024/month=03/day=15/report.csv''"
  by code_simp

text \<open>
  Claim C4, amended. For the file name \<^verbatim>\<open>report_20240315_v1.xlsx\<close> the derivation
  yields year 2024, month 3, day 15 and the prefix \<^verbatim>\<open>report_20240315_v1\<close>, and the
  destination key is \<^verbatim>\<open>year=2024/month=03/day=15/report_20240315_v1.csv\<close>, whatever
  the table of decimal digits.
\<close>

theorem report_partition_and_key:
  assumes nd: "decimal_digits nd"
  shows "date_of_file_name nd ''report_20240315_v1.xlsx'' = Inr (2024, 3, 15) \<and>
   file_prefix_of ''report_20240315_v1.xlsx'' = ''report_20240315_v1'' \<and>
   target_key 2024 3 15 (file_prefix_of ''report_20240315_v1.xlsx'')
     = ''year=2024/month=03/day=15/report_20240315_v1.csv''"
proof -
  have seg: "py_index (split_on (CHR ''_'') ''report_20240315_v1.xlsx'') 1 = Inr ''20240315''"
    by code_simp
  have "date_of_file_name nd ''report_20240315_v1.xlsx'' = Inr (2024, 3, 15)"
    using seg report_token [OF nd] by (simp add: date_of_file_name_def)
  moreover have "file_prefix_of ''report_20240315_v1.xlsx'' = ''report_20240315_v1'' \<and>
   target_key 2024 3 15 (file_prefix_of ''report_20240315_v1.xlsx'')
     = ''year=2024/month=03/day=15/report_20240315_v1.csv''"
    by code_simp
  ultimately show ?thesis by blast
qed

text \<open>The date, with the example table of digits.\<close>

theorem report_partition_and_key_witness:
  "decimal_digits example_decimal \<and>
   date_of_file_name example_decimal ''report_20240315_v1.xlsx'' = Inr (2024, 3, 15)"
  using example_decimal_digits report_partition_and_key [OF example_decimal_digits] by simp

subsection \<open>C5: the principals of a key policy\<close>

text \<open>
  Claim C5. For every key policy document, principal extraction returns, without an
  exception, a list without repetitions of exactly the identifiers that occur in some
  statement's Principal AWS field, as the field itself or as an element of its list, and
  do not end with \<^verbatim>\<open>:root\<close>. Statements without a Principal, principals without an
  AWS entry and AWS entries that are neither a string nor a list contribute nothing; the
  list is empty when no identifier qualifies.
\<close>

theorem principals_extracted:
  assumes "map_of key_metadata ''Policy'' = Some text"
    and "loads text = Inr doc"
    and "key_policy_document doc"
  shows "\<exists>arns. get_aws_account_arns_from_key_metadata loads key_metadata = Inr arns \<and>
           distinct arns \<and> set arns = spec_principals doc"
  using account_arns_of_key_policy_ok [OF assms(3)] assms(1,2)
  by (simp add: get_aws_account_arns_from_key_metadata_def)

text \<open>
  The example policy: the root account is left out, the user named twice is returned
  once, the service principal and the wildcard add nothing.
\<close>

theorem principals_extracted_witness:
  "key_policy_document example_key_policy \<and>
   get_aws_account_arns_from_key_metadata (\<lambda>text. Inr example_key_policy)
     [(''Policy'', ''policy-text'')] = Inr [''arn:aws:iam::222:user/x''] \<and>
   spec_principals example_key_policy = {''arn:aws:iam::222:user/x''}"
proof -
  have "map_of [(''Policy'', ''policy-text'')] ''Policy'' = Some ''policy-text''" by simp
  from principals_extracted [OF this _ example_key_policy_document,
      of "\<lambda>text. Inr example_key_policy"]
  show ?thesis using example_key_policy_arns example_key_policy_document by auto
qed

subsection \<open>C6: a file that is not a spreadsheet\<close>

text \<open>
  Claim C6. For every trigger event whose object key has an extension other than
  \<^verbatim>\<open>xlsx\<close>, compared without regard to case, the handler returns the response with
  status 400 and the body \<^verbatim>\<open>Error: <file name> is not an Excel file\<close>; it raises no
  exception, sends no request to any service and leaves the world as it was.
\<close>

theorem non_excel_rejected:
  assumes "lower (file_extension (file_name (event_object_key event))) \<noteq> ''xlsx''"
  shows "lambda_handler sv event w =
     (Inr \<lparr>statusCode = 400,
           body = ''Error: '' @ file_name (event_object_key event) @ '' is not an Excel file''\<rparr>,
      (w, []))"
  using assms by (simp add: lambda_handler_def Let_def pure_io_def)

text \<open>The upload \<^verbatim>\<open>in/notes.txt\<close>.\<close>

theorem non_excel_rejected_witness:
  "lower (file_extension (file_name (event_object_key notes_event))) \<noteq> ''xlsx'' \<and>
   lambda_handler example_services notes_event () =
     (Inr \<lparr>statusCode = 400, body = ''Error: notes.txt is not an Excel file''\<rparr>, ((), []))"
proof -
  have ext: "lower (file_extension (file_name (event_object_key notes_event))) \<noteq> ''xlsx''"
    by code_simp
  have name: "file_name (event_object_key notes_event) = ''notes.txt''"
    by code_simp
  from non_excel_rejected [OF ext, of example_services "()"] ext name
  show ?thesis by simp
qed

subsection \<open>C7: the cleaned table\<close>

text \<open>
  Claim C7. For every raw grid, a rectangular frame, the cleaning step either raises
  IndexError, which it does only when every cell of the grid is empty, or returns a
  header and data rows such that no row among them is entirely empty, no column of the
  table they form is entirely empty, and every data row has as many cells as the header.
\<close>

theorem clean_invariant:
  assumes rect: "rectangular g"
  shows "case clean g of
           Inl e \<Rightarrow> e = IndexError \<and> (\<forall>r \<in> set g. \<forall>c \<in> set r. c = None)
         | Inr (headers, values) \<Rightarrow>
             (\<forall>r \<in> set (headers # values). \<exists>c \<in> set r. c \<noteq> None) \<and>
             (\<forall>k < length headers. \<exists>r \<in> set (headers # values). r ! k \<noteq> None) \<and>
             (\<forall>r \<in> set values. length r = length headers)"
proof (cases "clean g")
  case (Inl e)
  then show ?thesis using clean_Inl [OF Inl] by simp
next
  case (Inr hv)
  obtain headers "values" where hv: "hv = (headers, values)" by (cases hv)
  let ?g' = "dropna_rows g"
  have out: "dropna_columns ?g' = headers # values"
    using Inr hv by (auto simp: clean_def Let_def split: list.splits)
  have rect': "rectangular ?g'" by (rule rectangular_dropna_rows [OF rect])
  have vals: "\<forall>r \<in> set ?g'. \<exists>c \<in> set r. c \<noteq> None" by (auto dest: dropna_rows_has_value)
  have len: "\<And>r. r \<in> set (headers # values) \<Longrightarrow> length r = length (kept_columns ?g')"
    using dropna_columns_row_length [of _ ?g'] out by simp
  have rows: "\<forall>r \<in> set (headers # values). \<exists>c \<in> set r. c \<noteq> None"
    using dropna_columns_row_has_value [OF rect' vals] out by simp
  have cols: "\<forall>k < length headers. \<exists>r \<in> set (headers # values). r ! k \<noteq> None"
  proof (intro allI impI)
    fix k assume "k < length headers"
    then have "k < length (kept_columns ?g')" using len [of headers] by simp
    from dropna_columns_column_has_value [OF this]
    show "\<exists>r \<in> set (headers # values). r ! k \<noteq> None"
      using out by simp
  qed
  have same: "\<forall>r \<in> set values. length r = length headers"
    using len by simp
  show ?thesis using Inr hv rows cols same by simp
qed

text \<open>
  The example sheet: two blank rows and the blank column go, the first row left is the
  header, one data row of three cells remains.
\<close>

theorem clean_invariant_witness:
  "rectangular example_grid \<and>
   clean example_grid =
     Inr ([Some ''id'', Some ''item'', Some ''qty''], [[Some ''1'', Some ''pen'', Some ''4'']])"
proof -
  have rect: "rectangular example_grid"
    by (simp add: rectangular_def example_grid_def ncols_def)
  from clean_invariant [OF rect] rect show ?thesis
    by (simp add: example_grid_clean)
qed

subsection \<open>C8: a file name without a date\<close>




subsection \<open>C9: a crawler that does not start\<close>

text \<open>
  Claim C9 as stated fails. Conversion, upload and policy application succeed, the
  crawler raises, and the invocation ends with the crawler's exception, not with the
  response 200.
\<close>

theorem crawler_failure_counterexample:
  "lambda_handler crawler_down sales_event () =
     (Inl (ExternalError ''CrawlerRunningException''),
      (),
      [GetObject ''uploads'' ''in/sales_20230901_q.xlsx'' (Inr ''xlsx-bytes''),
       PutObject ''input-data-bucket-eu-west-2''
         ''year=2023/month=09/day=01/sales_20230901_q.csv'' ''csv-text'' (Inr ()),
       GetBucketEncryption ''input-data-bucket-eu-west-2'' (Inr kms_encryption),
       GetKeyPolicy (Some ''key-1'') ''default'' (Inr [(''Policy'', ''policy-text'')]),
       PutBucketPolicy ''input-data-bucket-eu-west-2'' ''policy-json'' (Inr ()),
       StartCrawler ''s3_input_crawler'' (Inl (ExternalError ''CrawlerRunningException''))])"
  by (rule crawler_down_run)

text \<open>
  Claim C9, amended. In every invocation, when \<^verbatim>\<open>start_crawler\<close> raises, the
  invocation fails with that exception; the response with status 200 is returned only
  after \<^verbatim>\<open>start_crawler\<close> has returned for the crawler \<^verbatim>\<open>s3_input_crawler\<close>.
\<close>

theorem crawler_failure_propagates:
  assumes "lambda_handler sv event w = (res, w', log)"
  shows "(\<forall>n e. StartCrawler n (Inl e) \<in> set log \<longrightarrow> res = Inl e) \<and>
         (\<forall>resp. res = Inr resp \<and> statusCode resp = 200 \<longrightarrow>
            StartCrawler ''s3_input_crawler'' (Inr ()) \<in> set log)"
  using assms
  by (auto simp: run_defs split: if_splits sum.splits prod.splits)

text \<open>The run with the crawler that raises, and the run in which it starts.\<close>

theorem crawler_failure_propagates_witness:
  "StartCrawler ''s3_input_crawler'' (Inl (ExternalError ''CrawlerRunningException''))
     \<in> set (snd (snd (lambda_handler crawler_down sales_event ()))) \<and>
   fst (lambda_handler crawler_down sales_event ()) =
     Inl (ExternalError ''CrawlerRunningException'') \<and>
   statusCode (projr (fst (lambda_handler example_services sales_event ()))) = 200 \<and>
   StartCrawler ''s3_input_crawler'' (Inr ())
     \<in> set (snd (snd (lambda_handler example_services sales_event ())))"
proof -
  have down: "StartCrawler ''s3_input_crawler'' (Inl (ExternalError ''CrawlerRunningException''))
     \<in> set (snd (snd (lambda_handler crawler_down sales_event ())))"
    by (simp add: crawler_down_run)
  from crawler_failure_propagates [OF crawler_down_run] down
  have r1: "fst (lambda_handler crawler_down sales_event ()) =
     Inl (ExternalError ''CrawlerRunningException'')"
    by (simp add: crawler_down_run)
  have ok: "statusCode (projr (fst (lambda_handler example_services sales_event ()))) = 200"
    by (simp add: example_run)
  from crawler_failure_propagates [OF example_run]
  have r2: "StartCrawler ''s3_input_crawler'' (Inr ())
     \<in> set (snd (snd (lambda_handler example_services sales_event ())))"
    by (simp add: example_run)
  from down r1 ok r2 show ?thesis by blast
qed

subsection \<open>C10: a grid without a value\<close>

text \<open>
  Claim C10 as stated fails: on a grid of two empty rows the cleaning step returns no
  table, it raises IndexError.
\<close>

theorem empty_grid_counterexample:
  "clean [[None, None], [None, None :: string option]] = Inl IndexError"
  by code_simp

text \<open>
  Claim C10, amended. For every raw grid in which every row is entirely empty, no row is
  left after the rows are filtered, and the cleaning step raises IndexError where it
  takes the header from the first row; it returns no table.
\<close>

theorem empty_grid_raises:
  assumes "\<forall>r \<in> set g. \<forall>c \<in> set r. c = None"
  shows "dropna_rows g = [] \<and> clean g = Inl IndexError"
proof -
  have "dropna_rows g = []" using assms by (auto simp: dropna_rows_def filter_empty_conv)
  then show ?thesis by (simp add: clean_def dropna_columns_def)
qed

text \<open>A sheet of two rows and two columns with no value in it.\<close>

theorem empty_grid_raises_witness:
  "list_all (list_all (\<lambda>c. c = None)) [[None, None], [None, None :: string option]] \<and>
   dropna_rows [[None, None], [None, None :: string option]] = [] \<and>
   clean [[None, None], [None, None :: string option]] = Inl IndexError"
proof -
  have h: "\<forall>r \<in> set [[None, None], [None, None :: string option]]. \<forall>c \<in> set r. c = None"
    by simp
  from empty_grid_raises [OF h] show ?thesis by simp
qed

end
